theory Spec2Isabelle
  imports Complex_Main
begin

section \<open>Python text\<close>

text \<open>
  A Python \<open>str\<close> is a sequence of Unicode code points; it is modelled as the list of
  its code points. The literals of the source are ASCII, apart from the arrow U+2192 in
  the details line of \<open>calculate_ascii_exp_sum\<close>, and are written with \<open>ascii\<close>.
\<close>

type_synonym pystr = "nat list"

definition ascii :: "string \<Rightarrow> pystr" where
  "ascii s = map of_char s"

text \<open>\<open>str.isspace\<close> for one code point: the white space that \<open>str.strip()\<close> removes.\<close>

definition isspace :: "nat \<Rightarrow> bool" where
  "isspace c =
     ((9 \<le> c \<and> c \<le> 13) \<or> (28 \<le> c \<and> c \<le> 32) \<or> c = 133 \<or> c = 160 \<or> c = 5760 \<or>
      (8192 \<le> c \<and> c \<le> 8202) \<or> c = 8232 \<or> c = 8233 \<or> c = 8239 \<or> c = 8287 \<or> c = 12288)"

definition strip :: "pystr \<Rightarrow> pystr" where
  "strip s = rev (dropWhile isspace (rev (dropWhile isspace s)))"

text \<open>\<open>s.split('\n')\<close>: the pieces between line feeds; never the empty list.\<close>

fun split_newline :: "pystr \<Rightarrow> pystr list" where
  "split_newline [] = [[]]"
| "split_newline (c # cs) =
     (if c = 10 then [] # split_newline cs
      else (case split_newline cs of
              [] \<Rightarrow> [[c]]
            | l # ls \<Rightarrow> (c # l) # ls))"

definition startswith :: "pystr \<Rightarrow> pystr \<Rightarrow> bool" where
  "startswith s p = (take (length p) s = p)"

text \<open>
  \<open>_, function_info = line.split(":", 1)\<close>: the text after the first colon. The source
  only does this on a line that starts with \<open>FUNCTION_CALL:\<close>, so the colon is there.
\<close>

definition after_first_colon :: "pystr \<Rightarrow> pystr" where
  "after_first_colon line = drop 1 (dropWhile (\<lambda>c. c \<noteq> 58) line)"

text \<open>\<open>sep.join(xs)\<close>.\<close>

fun join :: "pystr \<Rightarrow> pystr list \<Rightarrow> pystr" where
  "join sep [] = []"
| "join sep [x] = x"
| "join sep (x # y # ys) = x @ sep @ join sep (y # ys)"

text \<open>\<open>str(n)\<close> for a non-negative and for any integer.\<close>

fun str_nat :: "nat \<Rightarrow> pystr" where
  "str_nat n = (if n < 10 then [48 + n] else str_nat (n div 10) @ [48 + n mod 10])"

declare str_nat.simps [simp del]

definition str_int :: "int \<Rightarrow> pystr" where
  "str_int i = (if i < 0 then 45 # str_nat (nat (- i)) else str_nat (nat i))"

section \<open>The agent: autonomous\_paint\_agent.py\<close>

subsection \<open>Values decoded from JSON\<close>

text \<open>
  What \<open>json.loads\<close> returns. An object is the list of the items of the resulting
  \<open>dict\<close>. The loop never looks inside a number, so the type of numbers is a parameter.
\<close>

datatype 'n json =
    JNull
  | JBool bool
  | JNumber 'n
  | JString pystr
  | JArray "'n json list"
  | JObject "(pystr \<times> 'n json) list"

text \<open>The exceptions that reach the handler of the iteration (\<open>except Exception\<close>, line 377).\<close>

datatype exn =
    TimeoutError
  | GenerationError pystr
  | UnboundLocalError
  | KeyError pystr
  | TypeError
  | ValueError
  | RecursionError

text \<open>
  What a call of \<open>json.loads\<close> does: it returns a value, raises \<open>JSONDecodeError\<close> (the
  one exception that line 330 catches), or raises another exception, as it does with
  \<open>ValueError\<close> on an integer literal beyond the digit limit and with \<open>RecursionError\<close>
  on a payload nested too deeply.
\<close>

datatype 'n decoded = Decoded "'n json" | JSONDecodeError | DecoderRaised exn

text \<open>\<open>value[key]\<close> with a string key, as in \<open>function_info_json['name']\<close>.\<close>

fun getitem :: "'n json \<Rightarrow> pystr \<Rightarrow> exn + 'n json" where
  "getitem (JObject items) key =
     (case map_of items key of
        None \<Rightarrow> Inl (KeyError key)
      | Some v \<Rightarrow> Inr v)"
| "getitem JNull key = Inl TypeError"
| "getitem (JBool b) key = Inl TypeError"
| "getitem (JNumber n) key = Inl TypeError"
| "getitem (JString s) key = Inl TypeError"
| "getitem (JArray xs) key = Inl TypeError"

text \<open>
  \<open>func_name in tool_names\<close>: the registry holds strings and nothing else is equal to
  one, so the test succeeds only for a string that is listed; the result is that name.
\<close>

fun registered :: "'n json \<Rightarrow> pystr list \<Rightarrow> pystr option" where
  "registered (JString name) names = (if name \<in> set names then Some name else None)"
| "registered JNull names = None"
| "registered (JBool b) names = None"
| "registered (JNumber n) names = None"
| "registered (JArray xs) names = None"
| "registered (JObject items) names = None"

subsection \<open>The collaborators\<close>

text \<open>
  The language model: one request either times out, fails with a message (so does a
  response without text, on which \<open>response.text.strip()\<close> raises), or answers with a
  text.
\<close>

datatype llm_result = Timed_out | Failed pystr | Response pystr

text \<open>\<open>generate_with_timeout\<close> prints and re-raises; otherwise it returns the response.\<close>

fun generate_with_timeout :: "llm_result \<Rightarrow> exn + pystr" where
  "generate_with_timeout Timed_out = Inl TimeoutError"
| "generate_with_timeout (Failed msg) = Inl (GenerationError msg)"
| "generate_with_timeout (Response text) = Inr text"

text \<open>
  What \<open>session.call_tool\<close> gives back: an exception with its message, a result whose
  \<open>content\<close> is a list of items, a result whose \<open>content\<close> is not a list (given by its
  \<open>str\<close>), or a result without \<open>content\<close> (given by its \<open>str\<close>). An item either has a
  \<open>text\<close> or is of another type, given by the name of its class.
\<close>

datatype content_item = TextContent pystr | OtherContent pystr

datatype tool_result =
    CallRaised pystr
  | ContentList "content_item list"
  | ContentOther pystr
  | NoContent pystr

text \<open>
  Lines 345-351 and the handler of line 360: \<open>Inr\<close> is \<open>result_text\<close>, \<open>Inl\<close> is
  \<open>str(e)\<close> of the exception caught.
\<close>

fun result_text :: "tool_result \<Rightarrow> pystr + pystr" where
  "result_text (CallRaised msg) = Inl msg"
| "result_text (ContentList []) = Inl (ascii ''list index out of range'')"
| "result_text (ContentList (TextContent t # rest)) = Inr t"
| "result_text (ContentList (OtherContent cls # rest)) =
     Inl ([39] @ cls @ [39] @ ascii '' object has no attribute '' @ [39] @ ascii ''text'' @ [39])"
| "result_text (ContentOther s) = Inr s"
| "result_text (NoContent s) = Inr s"

text \<open>
  Everything \<open>main\<close> takes from outside: the JSON decoder, the answer of the model to the request of an iteration (given
  the index of the iteration and the query; the prompt is the fixed system prompt
  followed by the query), the tool server (a state machine on \<open>'srv\<close>), and the names
  the server listed.
\<close>

record ('n, 'srv) env =
  loads :: "pystr \<Rightarrow> 'n decoded"
  generate_content :: "nat \<Rightarrow> pystr \<Rightarrow> llm_result"
  call_tool :: "'srv \<Rightarrow> pystr \<Rightarrow> 'n json \<Rightarrow> tool_result \<times> 'srv"
  tool_names :: "pystr list"

text \<open>
  The variables of \<open>main\<close> that the loop reads and writes: the globals \<open>iteration\<close> and
  \<open>iteration_response\<close>, the locals \<open>query\<close> and \<open>function_info_json\<close> (\<open>None\<close> while
  it is unbound), and the state of the tool server behind \<open>session\<close>.
\<close>

record ('n, 'srv) agent_state =
  iteration :: nat
  iteration_response :: "pystr list"
  query :: pystr
  function_info_json :: "'n json option"
  session :: 'srv

definition max_iterations :: nat where
  "max_iterations = 10"

definition initial_query :: "pystr \<Rightarrow> pystr \<Rightarrow> pystr" where
  \<open>initial_query user_input recipient_email =
     ascii ''Calculate the ASCII exponential sum for "'' @ user_input @
     ascii ''", visualize it in Paint, and email it to '' @ recipient_email @ ascii ''.''\<close>

definition initial_state :: "pystr \<Rightarrow> 'srv \<Rightarrow> ('n, 'srv) agent_state" where
  "initial_state q srv =
     \<lparr>iteration = 0, iteration_response = [], query = q, function_info_json = None,
      session = srv\<rparr>"

subsection \<open>One line of a response\<close>

text \<open>How a step leaves: on to the next statement, \<open>return\<close>, or an exception.\<close>

datatype ('n, 'srv) flow =
    Next "('n, 'srv) agent_state"
  | Return pystr "('n, 'srv) agent_state"
  | Raise exn "('n, 'srv) agent_state"

definition returned_record :: "nat \<Rightarrow> pystr \<Rightarrow> pystr \<Rightarrow> pystr" where
  "returned_record it func_name text =
     ascii ''In iteration '' @ str_nat (it + 1) @ ascii '', '' @ func_name @
     ascii '' returned: '' @ text"

definition failed_record :: "nat \<Rightarrow> pystr \<Rightarrow> pystr \<Rightarrow> pystr" where
  "failed_record it func_name msg =
     ascii ''In iteration '' @ str_nat (it + 1) @ ascii '', '' @ func_name @
     ascii '' failed: '' @ msg"

text \<open>Lines 338-362: the call of a tool whose name is registered.\<close>

definition execute_tool ::
  "('n, 'srv) env \<Rightarrow> ('n, 'srv) agent_state \<Rightarrow> pystr \<Rightarrow> 'n json \<Rightarrow> ('n, 'srv) agent_state" where
  "execute_tool e s func_name params =
     (case call_tool e (session s) func_name params of
        (result, srv) \<Rightarrow>
          (case result_text result of
             Inr text \<Rightarrow>
               s\<lparr>iteration_response :=
                    iteration_response s @ [returned_record (iteration s) func_name text],
                 session := srv\<rparr>
           | Inl msg \<Rightarrow>
               s\<lparr>iteration_response :=
                    iteration_response s @ [failed_record (iteration s) func_name msg],
                 session := srv\<rparr>))"

text \<open>
  Lines 333-362: the call that \<open>function_info_json\<close> describes, when the variable is
  bound.
\<close>

definition call_function_info ::
  "('n, 'srv) env \<Rightarrow> ('n, 'srv) agent_state \<Rightarrow> ('n, 'srv) flow" where
  "call_function_info e s1 =
     (case function_info_json s1 of
        None \<Rightarrow> Raise UnboundLocalError s1
      | Some obj \<Rightarrow>
          (case getitem obj (ascii ''name'') of
             Inl x \<Rightarrow> Raise x s1
           | Inr func_name \<Rightarrow>
               (case getitem obj (ascii ''args'') of
                  Inl x \<Rightarrow> Raise x s1
                | Inr params \<Rightarrow>
                    (case registered func_name (tool_names e) of
                       Some name \<Rightarrow> Next (execute_tool e s1 name params)
                     | None \<Rightarrow> Next s1))))"

text \<open>
  Lines 322-362, a line that starts with \<open>FUNCTION_CALL:\<close>. A \<open>JSONDecodeError\<close> is
  printed and execution goes on at line 333 with whatever \<open>function_info_json\<close> holds;
  any other exception of the decoder leaves the line.
\<close>

definition function_call ::
  "('n, 'srv) env \<Rightarrow> ('n, 'srv) agent_state \<Rightarrow> pystr \<Rightarrow> ('n, 'srv) flow" where
  "function_call e s line =
     (let function_info = after_first_colon line
      in case loads e function_info of
           Decoded v \<Rightarrow> call_function_info e (s\<lparr>function_info_json := Some v\<rparr>)
         | JSONDecodeError \<Rightarrow> call_function_info e s
         | DecoderRaised x \<Rightarrow> Raise x s)"

text \<open>Lines 314-367: the body of the loop over the lines.\<close>

definition process_line ::
  "('n, 'srv) env \<Rightarrow> ('n, 'srv) agent_state \<Rightarrow> pystr \<Rightarrow> ('n, 'srv) flow" where
  "process_line e s raw =
     (let line = strip raw in
      if line = [] then Next s
      else if \<not> startswith line (ascii ''FUNCTION_CALL:'') \<and>
              \<not> startswith line (ascii ''FINAL_ANSWER:'') then Next s
      else if startswith line (ascii ''FUNCTION_CALL:'') then function_call e s line
      else if startswith line (ascii ''FINAL_ANSWER:'') then Return line s
      else Next s)"

text \<open>Line 313: \<open>for line in lines\<close>.\<close>

fun for_lines ::
  "('n, 'srv) env \<Rightarrow> pystr list \<Rightarrow> ('n, 'srv) agent_state \<Rightarrow> ('n, 'srv) flow" where
  "for_lines e [] s = Next s"
| "for_lines e (raw # rest) s =
     (case process_line e s raw of
        Next s' \<Rightarrow> for_lines e rest s'
      | Return line s' \<Rightarrow> Return line s'
      | Raise x s' \<Rightarrow> Raise x s')"

text \<open>
  The lines that the loop over the lines passes without leaving it and without an
  exception, by the tests of the source. A line of narrative is one that lines 315-320
  skip: empty once stripped, or starting with neither marker.
\<close>

definition narrative :: "pystr \<Rightarrow> bool" where
  "narrative raw =
     (let line = strip raw in
      if line = [] then True
      else \<not> startswith line (ascii ''FUNCTION_CALL:'') \<and>
           \<not> startswith line (ascii ''FINAL_ANSWER:''))"

text \<open>
  An invocation of a registered tool is a line that lines 322-338 take to the call: it
  starts with \<open>FUNCTION_CALL:\<close>, its payload decodes to an object \<open>obj\<close> with an entry
  \<open>args\<close> and with a string \<open>name\<close> that the server listed.
\<close>

definition invocation ::
  "('n, 'srv) env \<Rightarrow> pystr \<Rightarrow> 'n json \<times> pystr \<times> 'n json \<Rightarrow> bool" where
  "invocation e raw c =
     (case c of (obj, name, params) \<Rightarrow>
        startswith (strip raw) (ascii ''FUNCTION_CALL:'') \<and>
        loads e (after_first_colon (strip raw)) = Decoded obj \<and>
        getitem obj (ascii ''name'') = Inr (JString name) \<and>
        getitem obj (ascii ''args'') = Inr params \<and>
        name \<in> set (tool_names e))"

text \<open>
  A line of either kind, \<open>None\<close> for narrative, and what processing it does to the
  state: nothing, or the binding of \<open>function_info_json\<close> followed by the tool call.
\<close>

fun line_is ::
  "('n, 'srv) env \<Rightarrow> pystr \<Rightarrow> ('n json \<times> pystr \<times> 'n json) option \<Rightarrow> bool" where
  "line_is e raw None = narrative raw"
| "line_is e raw (Some c) = invocation e raw c"

fun after_line ::
  "('n, 'srv) env \<Rightarrow> ('n, 'srv) agent_state \<Rightarrow> ('n json \<times> pystr \<times> 'n json) option \<Rightarrow>
     ('n, 'srv) agent_state" where
  "after_line e s None = s"
| "after_line e s (Some (obj, name, params)) =
     execute_tool e (s\<lparr>function_info_json := Some obj\<rparr>) name params"

subsection \<open>The loop over the iterations\<close>

definition next_query :: "pystr list \<Rightarrow> pystr" where
  "next_query history =
     ascii ''Previous steps and results:'' @ [10] @ join [10] history @ [10, 10] @
     ascii ''What should be the next step?''"

text \<open>
  Lines 300-381, one pass through the body of \<open>while\<close>: \<open>Next\<close> reaches
  \<open>iteration += 1\<close>, \<open>Raise\<close> is the \<open>break\<close> of the handler, \<open>Return\<close> the \<open>return\<close>
  of line 367.
\<close>

definition iteration_body ::
  "('n, 'srv) env \<Rightarrow> ('n, 'srv) agent_state \<Rightarrow> ('n, 'srv) flow" where
  "iteration_body e s =
     (case generate_with_timeout (generate_content e (iteration s) (query s)) of
        Inl x \<Rightarrow> Raise x s
      | Inr text \<Rightarrow>
          (case for_lines e (split_newline (strip text)) s of
             Next s' \<Rightarrow>
               Next (s'\<lparr>iteration := iteration s' + 1,
                        query := next_query (iteration_response s')\<rparr>)
           | Return line s' \<Rightarrow> Return line s'
           | Raise x s' \<Rightarrow> Raise x s'))"

text \<open>
  No line of a response changes \<open>iteration\<close>, however the line is left; the loop
  below terminates by it.
\<close>

fun state_of :: "('n, 'srv) flow \<Rightarrow> ('n, 'srv) agent_state" where
  "state_of (Next s) = s"
| "state_of (Return line s) = s"
| "state_of (Raise x s) = s"

lemma execute_tool_iteration: "iteration (execute_tool e s name params) = iteration s"
  by (simp add: execute_tool_def split: prod.splits sum.splits)

lemma function_call_keeps_iteration:
  "iteration (state_of (function_call e s line)) = iteration s"
  by (simp add: function_call_def call_function_info_def Let_def execute_tool_iteration
           split: option.splits sum.splits decoded.splits)

lemma process_line_keeps_iteration:
  "iteration (state_of (process_line e s raw)) = iteration s"
  by (simp add: process_line_def Let_def function_call_keeps_iteration)

lemma for_lines_keeps_iteration:
  "iteration (state_of (for_lines e ls s)) = iteration s"
proof (induction ls arbitrary: s)
  case Nil
  show ?case by simp
next
  case (Cons raw rest)
  show ?case
  proof (cases "process_line e s raw")
    case (Next s')
    with Cons.IH [of s'] process_line_keeps_iteration [of e s raw] show ?thesis by simp
  next
    case (Return line s')
    with process_line_keeps_iteration [of e s raw] show ?thesis by simp
  next
    case (Raise x s')
    with process_line_keeps_iteration [of e s raw] show ?thesis by simp
  qed
qed

lemma iteration_body_iteration:
  "iteration (state_of (iteration_body e s)) =
     (case iteration_body e s of Next s' \<Rightarrow> iteration s + 1 | _ \<Rightarrow> iteration s)"
proof (cases "generate_with_timeout (generate_content e (iteration s) (query s))")
  case (Inl x)
  then show ?thesis by (simp add: iteration_body_def)
next
  case (Inr t)
  with for_lines_keeps_iteration [of e "split_newline (strip t)" s]
  show ?thesis
    by (cases "for_lines e (split_newline (strip t)) s") (simp_all add: iteration_body_def)
qed

lemma iteration_body_Next:
  "iteration_body e s = Next s' \<Longrightarrow> iteration s' = iteration s + 1"
  using iteration_body_iteration [of e s] by simp

text \<open>
  Lines 299-381: \<open>while iteration < max_iterations\<close>. The loop is left by its
  condition, by \<open>break\<close> with the exception printed, or by \<open>return\<close>.
\<close>

datatype loop_exit = Loop_exhausted | Loop_break exn | Loop_return pystr

function while_loop ::
  "('n, 'srv) env \<Rightarrow> ('n, 'srv) agent_state \<Rightarrow> loop_exit \<times> ('n, 'srv) agent_state" where
  "while_loop e s =
     (if iteration s < max_iterations
      then (case iteration_body e s of
              Next s' \<Rightarrow> while_loop e s'
            | Return line s' \<Rightarrow> (Loop_return line, s')
            | Raise x s' \<Rightarrow> (Loop_break x, s'))
      else (Loop_exhausted, s))"
  by pat_completeness auto
termination
  by (relation "measure (\<lambda>(e, s). max_iterations - iteration s)")
     (auto dest: iteration_body_Next)

declare while_loop.simps [simp del]

text \<open>
  The states in which the condition of \<open>while\<close> is evaluated, in order: the first is the
  state the loop starts in, each further one follows a completed iteration.
\<close>

function loop_heads ::
  "('n, 'srv) env \<Rightarrow> ('n, 'srv) agent_state \<Rightarrow> ('n, 'srv) agent_state list" where
  "loop_heads e s =
     (if iteration s < max_iterations
      then (case iteration_body e s of
              Next s' \<Rightarrow> s # loop_heads e s'
            | Return line s' \<Rightarrow> [s]
            | Raise x s' \<Rightarrow> [s])
      else [s])"
  by pat_completeness auto
termination
  by (relation "measure (\<lambda>(e, s). max_iterations - iteration s)")
     (auto dest: iteration_body_Next)

declare loop_heads.simps [simp del]

text \<open>
  What \<open>main\<close> has printed when it is left: the line of the final answer (lines
  365-367), the exception of the iteration that broke the loop (line 378), and whether
  the banner of lines 383-385 was printed.
\<close>

record outcome =
  final_answer :: "pystr option"
  iteration_error :: "exn option"
  maximum_iterations_reached :: bool

definition main ::
  "('n, 'srv) env \<Rightarrow> ('n, 'srv) agent_state \<Rightarrow> outcome \<times> ('n, 'srv) agent_state" where
  "main e s0 =
     (case while_loop e s0 of
        (Loop_return line, s) \<Rightarrow>
          (\<lparr>final_answer = Some line, iteration_error = None,
            maximum_iterations_reached = False\<rparr>, s)
      | (Loop_break x, s) \<Rightarrow>
          (\<lparr>final_answer = None, iteration_error = Some x,
            maximum_iterations_reached = (iteration s \<ge> max_iterations)\<rparr>, s)
      | (Loop_exhausted, s) \<Rightarrow>
          (\<lparr>final_answer = None, iteration_error = None,
            maximum_iterations_reached = (iteration s \<ge> max_iterations)\<rparr>, s))"

text \<open>
  The exit status of the script. Without the API key the module exits with 1 (line 39);
  when \<open>paint_tools.py\<close> is not found \<open>main\<close> exits with 1 (line 154); an exception
  of the connection is caught in \<open>main\<close> (line 387). Once connected, \<open>main\<close> comes
  back from the loop in each of its three ways without an exception, so the handler of
  line 405 with its \<open>sys.exit(1)\<close> is not entered and the status is 0.
\<close>

datatype startup = Missing_api_key | Missing_tools_script | Connection_failed | Connected

definition exit_status ::
  "startup \<Rightarrow> ('n, 'srv) env \<Rightarrow> ('n, 'srv) agent_state \<Rightarrow> nat" where
  "exit_status st e s0 =
     (case st of
        Missing_api_key \<Rightarrow> 1
      | Missing_tools_script \<Rightarrow> 1
      | Connection_failed \<Rightarrow> 0
      | Connected \<Rightarrow> (case main e s0 of (out, s) \<Rightarrow> 0))"

section \<open>The tools: paint\_tools.py\<close>

subsection \<open>The object and the desktop\<close>

text \<open>
  The fields of \<open>PaintTools\<close>: the handle of the application (\<open>None\<close> until
  \<open>open_paint\<close> has started it), the simulation flag, and \<open>last_rect\<close> (\<open>None\<close> while
  the attribute does not exist).
\<close>

record 'h paint_tools =
  paint_app :: "'h option"
  simulation_mode :: bool
  last_rect :: "(int \<times> int \<times> int \<times> int) option"

definition PaintTools_init :: "bool \<Rightarrow> 'h paint_tools" where
  "PaintTools_init has_windows_modules =
     \<lparr>paint_app = None, simulation_mode = (\<not> has_windows_modules), last_rect = None\<rparr>"

text \<open>
  The desktop is a state \<open>'w\<close>. The mouse and keyboard sequences of the real mode act
  on it through pywinauto and win32api; each is taken as one step that returns the new
  desktop and, when an exception was raised on the way, its message.
\<close>

record ('h, 'w) gui =
  start_mspaint :: "'w \<Rightarrow> (pystr + 'h) \<times> 'w"
  maximize_window :: "'h \<Rightarrow> 'w \<Rightarrow> pystr option \<times> 'w"
  drag_rectangle :: "'h \<Rightarrow> int \<Rightarrow> int \<Rightarrow> int \<Rightarrow> int \<Rightarrow> 'w \<Rightarrow> pystr option \<times> 'w"
  save_dialog :: "'h \<Rightarrow> pystr \<Rightarrow> 'w \<Rightarrow> pystr option \<times> 'w"
  type_text :: "'h \<Rightarrow> (int \<times> int \<times> int \<times> int) option \<Rightarrow> pystr \<Rightarrow> 'w \<Rightarrow> pystr option \<times> 'w"

definition not_open :: pystr where
  "not_open = ascii ''Paint is not open. Please call open_paint first.''"

subsection \<open>The methods\<close>

text \<open>Each method returns its text, the object and the desktop.\<close>

definition open_paint ::
  "('h, 'w) gui \<Rightarrow> 'h paint_tools \<Rightarrow> 'w \<Rightarrow> pystr \<times> 'h paint_tools \<times> 'w" where
  "open_paint g self w =
     (if simulation_mode self then (ascii ''SIMULATION: Paint opened successfully'', self, w)
      else (case start_mspaint g w of
              (Inl msg, w1) \<Rightarrow> (ascii ''Error opening Paint: '' @ msg, self, w1)
            | (Inr app, w1) \<Rightarrow>
                (case maximize_window g app w1 of
                   (Some msg, w2) \<Rightarrow>
                     (ascii ''Error opening Paint: '' @ msg, self\<lparr>paint_app := Some app\<rparr>, w2)
                 | (None, w2) \<Rightarrow>
                     (ascii ''Paint opened successfully and maximized'',
                      self\<lparr>paint_app := Some app\<rparr>, w2))))"

definition corners :: "int \<Rightarrow> int \<Rightarrow> int \<Rightarrow> int \<Rightarrow> pystr" where
  "corners x1 y1 x2 y2 =
     ascii ''('' @ str_int x1 @ ascii '','' @ str_int y1 @ ascii '') to ('' @
     str_int x2 @ ascii '','' @ str_int y2 @ ascii '')''"

definition draw_rectangle ::
  "('h, 'w) gui \<Rightarrow> 'h paint_tools \<Rightarrow> 'w \<Rightarrow> int \<Rightarrow> int \<Rightarrow> int \<Rightarrow> int \<Rightarrow>
     pystr \<times> 'h paint_tools \<times> 'w" where
  "draw_rectangle g self w x1 y1 x2 y2 =
     (if simulation_mode self
      then (ascii ''SIMULATION: Rectangle drawn from '' @ corners x1 y1 x2 y2, self, w)
      else (case paint_app self of
              None \<Rightarrow> (not_open, self, w)
            | Some app \<Rightarrow>
                (case drag_rectangle g app x1 y1 x2 y2 w of
                   (Some msg, w1) \<Rightarrow> (ascii ''Error drawing rectangle: '' @ msg, self, w1)
                 | (None, w1) \<Rightarrow>
                     (ascii ''Rectangle drawn from '' @ corners x1 y1 x2 y2,
                      self\<lparr>last_rect := Some (x1, y1, x2, y2)\<rparr>, w1))))"

definition save_paint ::
  "('h, 'w) gui \<Rightarrow> 'h paint_tools \<Rightarrow> 'w \<Rightarrow> pystr \<Rightarrow> pystr \<times> 'h paint_tools \<times> 'w" where
  "save_paint g self w filename =
     (if simulation_mode self then (ascii ''SIMULATION: File saved as '' @ filename, self, w)
      else (case paint_app self of
              None \<Rightarrow> (not_open, self, w)
            | Some app \<Rightarrow>
                (case save_dialog g app filename w of
                   (Some msg, w1) \<Rightarrow> (ascii ''Error saving file: '' @ msg, self, w1)
                 | (None, w1) \<Rightarrow>
                     (ascii ''File saved to Assignment directory as: '' @ filename, self, w1))))"

definition add_text_in_paint ::
  "('h, 'w) gui \<Rightarrow> 'h paint_tools \<Rightarrow> 'w \<Rightarrow> pystr \<Rightarrow> pystr \<times> 'h paint_tools \<times> 'w" where
  "add_text_in_paint g self w text =
     (if simulation_mode self
      then (ascii ''SIMULATION: Text '' @ [39] @ text @ [39] @ ascii '' added to Paint'', self, w)
      else (case paint_app self of
              None \<Rightarrow> (not_open, self, w)
            | Some app \<Rightarrow>
                (case type_text g app (last_rect self) text w of
                   (Some msg, w1) \<Rightarrow> (ascii ''Error adding text: '' @ msg, self, w1)
                 | (None, w1) \<Rightarrow>
                     (ascii ''Text '' @ [39] @ text @ [39] @ ascii '' added to Paint'', self, w1))))"

subsection \<open>The arithmetic transform\<close>

text \<open>
  The floating-point side of \<open>calculate_ascii_exp_sum\<close>, on a type \<open>'f\<close> of floats:
  \<open>math.exp\<close> of a code point (\<open>None\<close> is its \<open>OverflowError\<close>, whose text is
  \<open>math range error\<close>), the built-in \<open>sum\<close> of a list of floats, and the formats
  \<open>.6e\<close> and \<open>.2e\<close>.
\<close>

record 'f float_ops =
  math_exp :: "nat \<Rightarrow> 'f option"
  float_sum :: "'f list \<Rightarrow> 'f"
  format_6e :: "'f \<Rightarrow> pystr"
  format_2e :: "'f \<Rightarrow> pystr"

text \<open>
  One entry of \<open>ascii_details\<close>; \<open>ord(char)\<close> is the code point itself, and the
  exponential that line 407 computes again is the one of line 403.
\<close>

definition detail :: "'f float_ops \<Rightarrow> nat \<times> 'f \<Rightarrow> pystr" where
  "detail fl p =
     (case p of (char, v) \<Rightarrow>
        [char] @ ascii ''='' @ str_nat char @ [8594] @ ascii ''e^'' @ str_nat char @
        ascii ''='' @ format_2e fl v)"

definition calculate_ascii_exp_sum ::
  "'f float_ops \<Rightarrow> 'h paint_tools \<Rightarrow> pystr \<Rightarrow> pystr" where
  "calculate_ascii_exp_sum fl self input_string =
     (if input_string = [] then ascii ''Input string is empty''
      else (let ascii_values = input_string in
            case those (map (math_exp fl) ascii_values) of
              None \<Rightarrow> ascii ''Error calculating ASCII exponential sum: math range error''
            | Some exp_values \<Rightarrow>
                (let total_sum = float_sum fl exp_values;
                     ascii_details =
                       join (ascii '', '') (map (detail fl) (zip input_string exp_values))
                 in ascii ''Sum of exponentials of ASCII values for '' @ [39] @
                    input_string @ [39] @ ascii '': '' @ format_6e fl total_sum @ [10] @
                    ascii ''Details: '' @ ascii_details)))"

subsection \<open>The arithmetic transform when the library may vary\<close>

text \<open>
  To speak of two invocations giving the same text, the operations of the library are
  also taken as they are called, one call at a time, without supposing that a call
  gives the same result each time: each operation maps its argument to the set of
  results a call may have.
\<close>

record 'f float_lib =
  exp_results :: "nat \<Rightarrow> 'f option set"
  sum_results :: "'f list \<Rightarrow> 'f set"
  format_6e_results :: "'f \<Rightarrow> pystr set"
  format_2e_results :: "'f \<Rightarrow> pystr set"

text \<open>
  A library in which every call has the one result that the operations \<open>fl\<close> give.
\<close>

definition as_lib :: "'f float_ops \<Rightarrow> 'f float_lib" where
  "as_lib fl =
     \<lparr>exp_results = (\<lambda>n. {math_exp fl n}),
      sum_results = (\<lambda>vs. {float_sum fl vs}),
      format_6e_results = (\<lambda>v. {format_6e fl v}),
      format_2e_results = (\<lambda>v. {format_2e fl v})\<rparr>"

text \<open>
  Line 403, \<open>[math.exp(val) for val in ascii_values]\<close>: one call per code point, from
  left to right, up to the first \<open>OverflowError\<close> (\<open>None\<close>).
\<close>

fun exp_all :: "'f float_lib \<Rightarrow> nat list \<Rightarrow> 'f list option set" where
  "exp_all L [] = {Some []}"
| "exp_all L (n # ns) =
     (\<Union>r \<in> exp_results L n.
        case r of
          None \<Rightarrow> {None}
        | Some v \<Rightarrow> map_option ((#) v) ` exp_all L ns)"

text \<open>
  Line 407: for each character a further call of \<open>math.exp\<close> and one of the format
  \<open>.2e\<close>.
\<close>

definition detail_entry :: "nat \<Rightarrow> pystr \<Rightarrow> pystr" where
  "detail_entry char t =
     [char] @ ascii ''='' @ str_nat char @ [8594] @ ascii ''e^'' @ str_nat char @ ascii ''='' @ t"

fun details_all :: "'f float_lib \<Rightarrow> nat list \<Rightarrow> pystr list option set" where
  "details_all L [] = {Some []}"
| "details_all L (char # cs) =
     (\<Union>r \<in> exp_results L char.
        case r of
          None \<Rightarrow> {None}
        | Some v \<Rightarrow>
            (\<Union>t \<in> format_2e_results L v.
               map_option ((#) (detail_entry char t)) ` details_all L cs))"

text \<open>
  Lines 395-421: the texts that an invocation may return. The formats of the log lines
  409-411 do not enter the text.
\<close>

definition range_error :: pystr where
  "range_error = ascii ''Error calculating ASCII exponential sum: math range error''"

definition runs :: "'f float_lib \<Rightarrow> 'h paint_tools \<Rightarrow> pystr \<Rightarrow> pystr set" where
  "runs L self input_string =
     (if input_string = [] then {ascii ''Input string is empty''}
      else (\<Union>ev \<in> exp_all L input_string.
              case ev of
                None \<Rightarrow> {range_error}
              | Some exp_values \<Rightarrow>
                  (\<Union>total_sum \<in> sum_results L exp_values.
                     \<Union>dv \<in> details_all L input_string.
                       case dv of
                         None \<Rightarrow> {range_error}
                       | Some details \<Rightarrow>
                           (\<Union>t \<in> format_6e_results L total_sum.
                              {ascii ''Sum of exponentials of ASCII values for '' @ [39] @
                               input_string @ [39] @ ascii '': '' @ t @ [10] @
                               ascii ''Details: '' @ join (ascii '', '') details}))))"

section \<open>Worked inputs\<close>

text \<open>
  The names that \<open>paint_tools.py\<close> registers with \<open>@mcp.tool()\<close>, in the order of the file;
  the agent reads them from \<open>session.list_tools()\<close>.
\<close>

definition registered_tools :: "pystr list" where
  "registered_tools =
     [ascii ''open_paint'', ascii ''draw_rectangle'', ascii ''add_text_in_paint'',
      ascii ''save_paint_file'', ascii ''ascii_exp_sum'', ascii ''send_email_with_attachment'',
      ascii ''check_file_exists'']"

text \<open>Lines of planner output, and the values that \<open>json.loads\<close> decodes their payloads to.\<close>

definition draw_call :: pystr where
  \<open>draw_call = ascii ''FUNCTION_CALL: {"name": "draw_rectangle", "args": {"x1": 600, "y1": 354, "x2": 1000, "y2": 454}}''\<close>

definition draw_payload :: pystr where
  \<open>draw_payload = ascii '' {"name": "draw_rectangle", "args": {"x1": 600, "y1": 354, "x2": 1000, "y2": 454}}''\<close>

definition draw_args :: "int json" where
  "draw_args =
     JObject [(ascii ''x1'', JNumber 600), (ascii ''y1'', JNumber 354),
              (ascii ''x2'', JNumber 1000), (ascii ''y2'', JNumber 454)]"

definition draw_object :: "int json" where
  "draw_object =
     JObject [(ascii ''name'', JString (ascii ''draw_rectangle'')), (ascii ''args'', draw_args)]"

definition erase_call :: pystr where
  \<open>erase_call = ascii ''FUNCTION_CALL: {"name": "erase_canvas", "args": {}}''\<close>

definition erase_object :: "int json" where
  "erase_object =
     JObject [(ascii ''name'', JString (ascii ''erase_canvas'')), (ascii ''args'', JObject [])]"

definition broken_call :: pystr where
  \<open>broken_call = ascii ''FUNCTION_CALL: {"name": "draw_rectangle", "args": {"x1": 600''\<close>

definition final_line :: pystr where
  "final_line = ascii ''FINAL_ANSWER: done''"

text \<open>
  The decoder restricted to the payloads above: it answers as \<open>json.loads\<close> does on
  the two well-formed ones and on the truncated one, and is used on no other text.
\<close>

definition table_loads :: "pystr \<Rightarrow> int decoded" where
  "table_loads s =
     (if s = after_first_colon draw_call then Decoded draw_object
      else if s = after_first_colon erase_call then Decoded erase_object
      else JSONDecodeError)"

text \<open>A tool server that answers \<open>ok\<close> to every call and keeps the list of the calls received.\<close>

definition recording_server ::
  "(pystr \<times> int json) list \<Rightarrow> pystr \<Rightarrow> int json \<Rightarrow> tool_result \<times> (pystr \<times> int json) list" where
  "recording_server calls name params =
     (ContentList [TextContent (ascii ''ok'')], calls @ [(name, params)])"

text \<open>A planner that gives the listed answers, one per iteration, and then times out.\<close>

definition scripted :: "llm_result list \<Rightarrow> nat \<Rightarrow> pystr \<Rightarrow> llm_result" where
  "scripted answers i q = (if i < length answers then answers ! i else Timed_out)"

definition example_env :: "llm_result list \<Rightarrow> (int, (pystr \<times> int json) list) env" where
  "example_env answers =
     \<lparr>loads = table_loads, generate_content = scripted answers,
      call_tool = recording_server, tool_names = registered_tools\<rparr>"

definition example_start :: "(int, (pystr \<times> int json) list) agent_state" where
  "example_start = initial_state (initial_query (ascii ''AB'') (ascii ''a@b.c'')) []"

text \<open>
  The floating-point operations read symbolically, for running the transform on
  concrete inputs: a float is the expression that computes it, and a format prints the
  expression with its format specifier. \<open>math.exp\<close> raises \<open>OverflowError\<close> from 710 on,
  as it does on IEEE doubles (e^709 is below the largest double, e^710 above it).
\<close>

datatype fterm = Exp nat | Sum "fterm list"

fun show_fterm :: "fterm \<Rightarrow> pystr" where
  "show_fterm (Exp n) = ascii ''exp('' @ str_nat n @ ascii '')''"
| "show_fterm (Sum vs) = ascii ''sum('' @ join (ascii '','') (map show_fterm vs) @ ascii '')''"

definition symbolic_ops :: "fterm float_ops" where
  "symbolic_ops =
     \<lparr>math_exp = (\<lambda>n. if n < 710 then Some (Exp n) else None),
      float_sum = Sum,
      format_6e = (\<lambda>v. ascii ''{'' @ show_fterm v @ ascii '':.6e}''),
      format_2e = (\<lambda>v. ascii ''{'' @ show_fterm v @ ascii '':.2e}'')\<rparr>"

text \<open>
  A library in which a call of \<open>math.exp\<close> may or may not overflow.
\<close>

definition wavering_lib :: "fterm float_lib" where
  "wavering_lib = (as_lib symbolic_ops)\<lparr>exp_results := (\<lambda>n. {Some (Exp n), None})\<rparr>"

text \<open>
  A desktop on which every step succeeds and is counted.
\<close>

definition idle_gui :: "(unit, nat) gui" where
  "idle_gui =
     \<lparr>start_mspaint = (\<lambda>w. (Inr (), w + 1)),
      maximize_window = (\<lambda>app w. (None, w + 1)),
      drag_rectangle = (\<lambda>app x1 y1 x2 y2 w. (None, w + 1)),
      save_dialog = (\<lambda>app filename w. (None, w + 1)),
      type_text = (\<lambda>app rect text w. (None, w + 1))\<rparr>"

section \<open>Properties of the agent loop\<close>

subsection \<open>Lines\<close>

lemma max_iterations_pos: "0 < max_iterations"
  by (simp add: max_iterations_def)

lemma final_answer_not_call:
  assumes "startswith l (ascii ''FINAL_ANSWER:'')"
  shows "\<not> startswith l (ascii ''FUNCTION_CALL:'')"
proof
  assume c: "startswith l (ascii ''FUNCTION_CALL:'')"
  have "take (Suc (Suc 0)) l = take (Suc (Suc 0)) (take (length (ascii ''FINAL_ANSWER:'')) l)"
    by (simp add: ascii_def)
  also have "\<dots> = [70, 73]"
    using assms by (simp add: startswith_def ascii_def)
  finally have a: "take (Suc (Suc 0)) l = [70, 73]" .
  have "take (Suc (Suc 0)) l = take (Suc (Suc 0)) (take (length (ascii ''FUNCTION_CALL:'')) l)"
    by (simp add: ascii_def)
  also have "\<dots> = [70, 85]"
    using c by (simp add: startswith_def ascii_def)
  finally show False using a by simp
qed

lemma final_answer_nonempty: "startswith l (ascii ''FINAL_ANSWER:'') \<Longrightarrow> l \<noteq> []"
  by (auto simp: startswith_def ascii_def)

lemma function_call_nonempty: "startswith l (ascii ''FUNCTION_CALL:'') \<Longrightarrow> l \<noteq> []"
  by (auto simp: startswith_def ascii_def)

lemma process_line_final_answer:
  "startswith (strip raw) (ascii ''FINAL_ANSWER:'') \<Longrightarrow>
   process_line e s raw = Return (strip raw) s"
  by (simp add: process_line_def Let_def final_answer_not_call final_answer_nonempty)

lemma process_line_function_call:
  "startswith (strip raw) (ascii ''FUNCTION_CALL:'') \<Longrightarrow>
   process_line e s raw = function_call e s (strip raw)"
  by (simp add: process_line_def Let_def function_call_nonempty)

lemma for_lines_append:
  "for_lines e (xs @ ys) s =
     (case for_lines e xs s of
        Next s' \<Rightarrow> for_lines e ys s'
      | Return line s' \<Rightarrow> Return line s'
      | Raise x s' \<Rightarrow> Raise x s')"
  by (induction xs arbitrary: s) (simp_all split: flow.splits)

subsection \<open>The worked inputs, evaluated\<close>

lemma strip_draw_call: "strip draw_call = draw_call"
  by (simp add: strip_def draw_call_def ascii_def isspace_def)
lemma strip_erase_call: "strip erase_call = erase_call"
  by (simp add: strip_def erase_call_def ascii_def isspace_def)
lemma strip_broken_call: "strip broken_call = broken_call"
  by (simp add: strip_def broken_call_def ascii_def isspace_def)
lemma strip_final_line: "strip final_line = final_line"
  by (simp add: strip_def final_line_def ascii_def isspace_def)

lemma draw_call_prefix: "startswith draw_call (ascii ''FUNCTION_CALL:'')"
  by (simp add: startswith_def draw_call_def ascii_def)
lemma erase_call_prefix: "startswith erase_call (ascii ''FUNCTION_CALL:'')"
  by (simp add: startswith_def erase_call_def ascii_def)
lemma broken_call_prefix: "startswith broken_call (ascii ''FUNCTION_CALL:'')"
  by (simp add: startswith_def broken_call_def ascii_def)
lemma final_line_prefix: "startswith final_line (ascii ''FINAL_ANSWER:'')"
  by (simp add: startswith_def final_line_def ascii_def)

lemma draw_call_payload: "after_first_colon draw_call = draw_payload"
  by (simp add: after_first_colon_def draw_payload_def draw_call_def ascii_def)

lemma loads_draw_call: "table_loads (after_first_colon draw_call) = Decoded draw_object"
  by (simp add: table_loads_def)
lemma loads_erase_call: "table_loads (after_first_colon erase_call) = Decoded erase_object"
  by (simp add: table_loads_def after_first_colon_def erase_call_def draw_call_def ascii_def)
lemma loads_broken_call: "table_loads (after_first_colon broken_call) = JSONDecodeError"
  by (simp add: table_loads_def after_first_colon_def erase_call_def draw_call_def
        broken_call_def ascii_def)

lemma draw_object_name:
  "getitem draw_object (ascii ''name'') = Inr (JString (ascii ''draw_rectangle''))"
  by (simp add: draw_object_def ascii_def)
lemma draw_object_args: "getitem draw_object (ascii ''args'') = Inr draw_args"
  by (simp add: draw_object_def ascii_def)
lemma erase_object_name:
  "getitem erase_object (ascii ''name'') = Inr (JString (ascii ''erase_canvas''))"
  by (simp add: erase_object_def ascii_def)
lemma erase_object_args: "getitem erase_object (ascii ''args'') = Inr (JObject [])"
  by (simp add: erase_object_def ascii_def)

lemma draw_rectangle_registered: "ascii ''draw_rectangle'' \<in> set registered_tools"
  by (simp add: registered_tools_def)
lemma erase_canvas_not_listed: "ascii ''erase_canvas'' \<notin> set registered_tools"
  by (simp add: registered_tools_def ascii_def)

lemma split_draw_then_final:
  "split_newline (strip (draw_call @ [10] @ final_line)) = [draw_call, final_line]"
  by (simp add: strip_def draw_call_def final_line_def ascii_def isspace_def)
lemma split_final_then_draw:
  "split_newline (strip (final_line @ [10] @ draw_call)) = [final_line, draw_call]"
  by (simp add: strip_def draw_call_def final_line_def ascii_def isspace_def)
lemma split_broken:
  "split_newline (strip broken_call) = [broken_call]"
  by (simp add: strip_def broken_call_def ascii_def isspace_def)

lemma example_env_simps:
  "loads (example_env answers) = table_loads"
  "generate_content (example_env answers) = scripted answers"
  "call_tool (example_env answers) = recording_server"
  "tool_names (example_env answers) = registered_tools"
  by (simp_all add: example_env_def)

lemma example_start_simps:
  "iteration example_start = 0"
  "iteration_response example_start = []"
  "function_info_json example_start = None"
  "session example_start = []"
  by (simp_all add: example_start_def initial_state_def)

lemma draw_call_executes:
  "function_info_json s = fi \<Longrightarrow> process_line (example_env answers) s draw_call =
     Next (s\<lparr>iteration_response :=
               iteration_response s @
               [returned_record (iteration s) (ascii ''draw_rectangle'') (ascii ''ok'')],
             function_info_json := Some draw_object,
             session := session s @ [(ascii ''draw_rectangle'', draw_args)]\<rparr>)"
  by (simp add: process_line_function_call strip_draw_call draw_call_prefix function_call_def
        call_function_info_def         example_env_simps loads_draw_call draw_object_name draw_object_args
        draw_rectangle_registered execute_tool_def recording_server_def)

lemma scripted_first: "scripted (a # answers) 0 q = a"
  by (simp add: scripted_def)

lemma scripted_none: "scripted [] i q = Timed_out"
  by (simp add: scripted_def)

lemma execute_tool_one_record:
  "length (iteration_response (execute_tool e s name params)) =
     length (iteration_response s) + 1"
  by (simp add: execute_tool_def split: prod.splits sum.splits)

lemma while_loop_return:
  "iteration s < max_iterations \<Longrightarrow> iteration_body e s = Return line s' \<Longrightarrow>
   while_loop e s = (Loop_return line, s')"
  by (simp add: while_loop.simps [of e s])

lemma while_loop_break:
  "iteration s < max_iterations \<Longrightarrow> iteration_body e s = Raise x s' \<Longrightarrow>
   while_loop e s = (Loop_break x, s')"
  by (simp add: while_loop.simps [of e s])

lemma loop_heads_stop:
  "iteration s < max_iterations \<Longrightarrow> iteration_body e s = Return line s' \<Longrightarrow>
   loop_heads e s = [s]"
  by (simp add: loop_heads.simps [of e s])

lemma main_return:
  "while_loop e s = (Loop_return line, s') \<Longrightarrow>
   main e s = (\<lparr>final_answer = Some line, iteration_error = None,
                maximum_iterations_reached = False\<rparr>, s')"
  by (simp add: main_def)

lemma main_break:
  "while_loop e s = (Loop_break x, s') \<Longrightarrow> iteration s' < max_iterations \<Longrightarrow>
   main e s = (\<lparr>final_answer = None, iteration_error = Some x,
                maximum_iterations_reached = False\<rparr>, s')"
  by (simp add: main_def)

lemma example_start_first: "iteration example_start < max_iterations"
  by (simp add: example_start_simps max_iterations_pos)

subsection \<open>One iteration and the ways out of the loop\<close>

lemma iteration_body_response:
  "generate_content e (iteration s) (query s) = Response t \<Longrightarrow>
   split_newline (strip t) = ls \<Longrightarrow> for_lines e ls s = r \<Longrightarrow>
   iteration_body e s =
     (case r of
        Next s' \<Rightarrow>
          Next (s'\<lparr>iteration := iteration s' + 1, query := next_query (iteration_response s')\<rparr>)
      | Return line s' \<Rightarrow> Return line s'
      | Raise x s' \<Rightarrow> Raise x s')"
  by (auto simp: iteration_body_def)

subsection \<open>The round counter\<close>

lemma loop_heads_consecutive:
  "map iteration (loop_heads e s) = [iteration s ..< iteration s + length (loop_heads e s)]"
proof (induction e s rule: loop_heads.induct)
  case (1 e s)
  show ?case
  proof (cases "iteration s < max_iterations")
    case False
    then show ?thesis by (simp add: loop_heads.simps [of e s])
  next
    case True
    show ?thesis
    proof (cases "iteration_body e s")
      case (Next s')
      with iteration_body_iteration [of e s] have it: "iteration s' = iteration s + 1" by simp
      have "[iteration s ..< iteration s + Suc (length (loop_heads e s'))] =
              iteration s # [Suc (iteration s) ..< Suc (iteration s) + length (loop_heads e s')]"
        by (subst upt_rec) simp
      with "1.IH" [OF True Next] it True Next show ?thesis
        by (simp add: loop_heads.simps [of e s] del: upt_Suc)
    next
      case (Return line s')
      with True show ?thesis by (simp add: loop_heads.simps [of e s])
    next
      case (Raise x s')
      with True show ?thesis by (simp add: loop_heads.simps [of e s])
    qed
  qed
qed

lemma loop_heads_bounded:
  "iteration s \<le> max_iterations \<Longrightarrow>
   iteration s + length (loop_heads e s) \<le> max_iterations + 1"
proof (induction e s rule: loop_heads.induct)
  case (1 e s)
  show ?case
  proof (cases "iteration s < max_iterations")
    case False
    with "1.prems" show ?thesis by (simp add: loop_heads.simps [of e s])
  next
    case True
    show ?thesis
    proof (cases "iteration_body e s")
      case (Next s')
      with iteration_body_iteration [of e s] have it: "iteration s' = iteration s + 1" by simp
      with True have "iteration s' \<le> max_iterations" by simp
      from "1.IH" [OF True Next this] it True Next show ?thesis
        by (simp add: loop_heads.simps [of e s])
    next
      case (Return line s')
      with True show ?thesis by (simp add: loop_heads.simps [of e s])
    next
      case (Raise x s')
      with True show ?thesis by (simp add: loop_heads.simps [of e s])
    qed
  qed
qed

lemma loop_heads_last:
  "iteration (snd (while_loop e s)) = iteration (last (loop_heads e s))"
proof (induction e s rule: while_loop.induct)
  case (1 e s)
  show ?case
  proof (cases "iteration s < max_iterations")
    case False
    then show ?thesis by (simp add: loop_heads.simps [of e s] while_loop.simps [of e s])
  next
    case True
    show ?thesis
    proof (cases "iteration_body e s")
      case (Next s')
      have "loop_heads e s' \<noteq> []" by (simp add: loop_heads.simps [of e s'] split: flow.splits)
      with "1.IH" [OF True Next] True Next show ?thesis
        by (simp add: loop_heads.simps [of e s] while_loop.simps [of e s])
    next
      case (Return line s')
      with True iteration_body_iteration [of e s] show ?thesis
        by (simp add: loop_heads.simps [of e s] while_loop.simps [of e s])
    next
      case (Raise x s')
      with True iteration_body_iteration [of e s] show ?thesis
        by (simp add: loop_heads.simps [of e s] while_loop.simps [of e s])
    qed
  qed
qed

lemma while_loop_exit:
  "iteration s \<le> max_iterations \<Longrightarrow>
   (fst (while_loop e s) = Loop_exhausted) = (iteration (snd (while_loop e s)) = max_iterations) \<and>
   iteration (snd (while_loop e s)) \<le> max_iterations"
proof (induction e s rule: while_loop.induct)
  case (1 e s)
  show ?case
  proof (cases "iteration s < max_iterations")
    case False
    with "1.prems" show ?thesis by (simp add: while_loop.simps [of e s])
  next
    case True
    show ?thesis
    proof (cases "iteration_body e s")
      case (Next s')
      with iteration_body_iteration [of e s] have it: "iteration s' = iteration s + 1" by simp
      with True have "iteration s' \<le> max_iterations" by simp
      from "1.IH" [OF True Next this] True Next show ?thesis
        by (simp add: while_loop.simps [of e s])
    next
      case (Return line s')
      with True iteration_body_iteration [of e s] show ?thesis
        by (simp add: while_loop.simps [of e s])
    next
      case (Raise x s')
      with True iteration_body_iteration [of e s] show ?thesis
        by (simp add: while_loop.simps [of e s])
    qed
  qed
qed

subsection \<open>Narrative and invocations\<close>

lemma process_line_narrative: "narrative raw \<Longrightarrow> process_line e s raw = Next s"
  by (auto simp: narrative_def process_line_def Let_def split: if_splits)

lemma process_line_invocation:
  "invocation e raw (obj, name, params) \<Longrightarrow>
   process_line e s raw =
     Next (execute_tool e (s\<lparr>function_info_json := Some obj\<rparr>) name params)"
  by (simp add: invocation_def process_line_function_call function_call_def
        call_function_info_def)

lemma process_line_kind:
  "line_is e raw k \<Longrightarrow> process_line e s raw = Next (after_line e s k)"
proof (cases k)
  case None
  then show "line_is e raw k \<Longrightarrow> ?thesis" by (simp add: process_line_narrative)
next
  case (Some c)
  then show "line_is e raw k \<Longrightarrow> ?thesis"
    by (cases c) (simp add: process_line_invocation)
qed

lemma for_lines_kinds:
  "list_all2 (line_is e) pre kinds \<Longrightarrow> for_lines e pre s = Next (foldl (after_line e) s kinds)"
proof (induction pre kinds arbitrary: s rule: list_all2_induct)
  case Nil
  show ?case by simp
next
  case (Cons raw pre k kinds)
  from Cons.hyps(1) have "process_line e s raw = Next (after_line e s k)"
    by (rule process_line_kind)
  with Cons.IH [of "after_line e s k"] show ?case by simp
qed

lemma after_line_records:
  "length (iteration_response (after_line e s k)) =
     length (iteration_response s) + (if k = None then 0 else 1)"
  by (cases k) (auto simp: execute_tool_one_record)

lemma foldl_after_line_records:
  "length (iteration_response (foldl (after_line e) s kinds)) =
     length (iteration_response s) + length (filter (\<lambda>k. k \<noteq> None) kinds)"
  by (induction kinds arbitrary: s) (simp_all add: after_line_records)

section \<open>The claims\<close>

text \<open>
  Claim C1, as amended. Let the lines \<open>pre\<close> before a line that starts with
  \<open>FINAL_ANSWER:\<close> be lines of narrative and invocations of registered tools, \<open>kinds\<close>
  telling which. Then the run returns on the stripped \<open>FINAL_ANSWER\<close> line in the state
  reached by executing these invocations one after the other in document order, each
  exactly once, whatever the lines \<open>post\<close> after it are: they are never processed. One
  record has been appended for each invocation.
\<close>

theorem calls_before_final_answer:
  assumes "list_all2 (line_is e) pre kinds"
    and "startswith (strip fa) (ascii ''FINAL_ANSWER:'')"
  shows "for_lines e (pre @ fa # post) s =
           Return (strip fa) (foldl (after_line e) s kinds) \<and>
         length (iteration_response (foldl (after_line e) s kinds)) =
           length (iteration_response s) + length (filter (\<lambda>k. k \<noteq> None) kinds)"
  using assms
  by (simp add: for_lines_append for_lines_kinds process_line_final_answer
        foldl_after_line_records)

text \<open>
  Witness for C1: a line of narrative, a \<open>draw_rectangle\<close> call, the final answer, and
  one more call. The server has received exactly the first call when the run returns.
\<close>

theorem calls_before_final_answer_witness:
  "for_lines (example_env []) ([ascii ''REASONING: planning'', draw_call] @ final_line # [draw_call])
     example_start =
     Return final_line
       (example_start\<lparr>iteration_response :=
                        [returned_record 0 (ascii ''draw_rectangle'') (ascii ''ok'')],
                      function_info_json := Some draw_object,
                      session := [(ascii ''draw_rectangle'', draw_args)]\<rparr>)"
proof -
  have n: "narrative (ascii ''REASONING: planning'')"
    by (simp add: narrative_def strip_def startswith_def ascii_def isspace_def)
  have i: "invocation (example_env []) draw_call (draw_object, ascii ''draw_rectangle'', draw_args)"
    by (simp add: invocation_def strip_draw_call draw_call_prefix example_env_simps
          loads_draw_call draw_object_name draw_object_args draw_rectangle_registered)
  have h1: "list_all2 (line_is (example_env []))
              [ascii ''REASONING: planning'', draw_call]
              [None, Some (draw_object, ascii ''draw_rectangle'', draw_args)]"
    using n i by simp
  have h2: "startswith (strip final_line) (ascii ''FINAL_ANSWER:'')"
    by (simp add: strip_final_line final_line_prefix)
  from calls_before_final_answer [OF h1 h2, of "[draw_call]" example_start]
  show ?thesis
    by (simp add: strip_final_line execute_tool_def example_env_simps recording_server_def
          example_start_simps)
qed

text \<open>
  Counterexample to claim C1 as stated: in the response \<open>FINAL_ANSWER: done\<close> followed by
  a well-formed \<open>draw_rectangle\<close> call, the run ends with the final answer in the state
  it started in; no record was appended and the server received no call.
\<close>

theorem final_answer_first_counterexample:
  "main (example_env [Response (final_line @ [10] @ draw_call)]) example_start =
     (\<lparr>final_answer = Some final_line, iteration_error = None,
       maximum_iterations_reached = False\<rparr>, example_start) \<and>
   iteration_response example_start = [] \<and> session example_start = []"
proof -
  let ?e = "example_env [Response (final_line @ [10] @ draw_call)]"
  have g: "generate_content ?e (iteration example_start) (query example_start) =
             Response (final_line @ [10] @ draw_call)"
    by (simp add: example_env_simps example_start_simps scripted_first)
  have "for_lines ?e [final_line, draw_call] example_start = Return final_line example_start"
    by (simp add: process_line_final_answer strip_final_line final_line_prefix)
  from iteration_body_response [OF g split_final_then_draw this]
  have "iteration_body ?e example_start = Return final_line example_start"
    by simp
  then have "while_loop ?e example_start = (Loop_return final_line, example_start)"
    by (rule while_loop_return [OF example_start_first])
  then show ?thesis by (simp add: main_return example_start_simps)
qed

text \<open>
  Claim C2, evaluated on the code. The first response is a \<open>FUNCTION_CALL:\<close> line whose
  payload is cut short. After the decoding error is printed, line 333 reads
  \<open>function_info_json\<close>, which is unbound: the exception reaches the handler of the
  iteration and the loop is left by \<open>break\<close>, in the first round. When an earlier line
  has bound the variable, the malformed line is not skipped either: the earlier call is
  executed a second time.
\<close>

theorem malformed_json_breaks_loop:
  "main (example_env [Response broken_call]) example_start =
     (\<lparr>final_answer = None, iteration_error = Some UnboundLocalError,
       maximum_iterations_reached = False\<rparr>, example_start) \<and>
   for_lines (example_env []) [draw_call, broken_call] example_start =
     Next (example_start\<lparr>iteration_response :=
                        [returned_record 0 (ascii ''draw_rectangle'') (ascii ''ok''),
                         returned_record 0 (ascii ''draw_rectangle'') (ascii ''ok'')],
                      function_info_json := Some draw_object,
                      session := [(ascii ''draw_rectangle'', draw_args),
                                  (ascii ''draw_rectangle'', draw_args)]\<rparr>)"
proof -
  let ?e = "example_env [Response broken_call]"
  have g: "generate_content ?e (iteration example_start) (query example_start) =
             Response broken_call"
    by (simp add: example_env_simps example_start_simps scripted_first)
  have "for_lines ?e [broken_call] example_start = Raise UnboundLocalError example_start"
    by (simp add: process_line_function_call strip_broken_call broken_call_prefix
          function_call_def call_function_info_def example_env_simps loads_broken_call example_start_simps)
  from iteration_body_response [OF g split_broken this]
  have "iteration_body ?e example_start = Raise UnboundLocalError example_start"
    by simp
  then have "while_loop ?e example_start = (Loop_break UnboundLocalError, example_start)"
    by (rule while_loop_break [OF example_start_first])
  then have a: "main ?e example_start =
     (\<lparr>final_answer = None, iteration_error = Some UnboundLocalError,
       maximum_iterations_reached = False\<rparr>, example_start)"
    by (rule main_break [OF _ example_start_first])
  have b: "for_lines (example_env []) [draw_call, broken_call] example_start =
     Next (example_start\<lparr>iteration_response :=
                        [returned_record 0 (ascii ''draw_rectangle'') (ascii ''ok''),
                         returned_record 0 (ascii ''draw_rectangle'') (ascii ''ok'')],
                      function_info_json := Some draw_object,
                      session := [(ascii ''draw_rectangle'', draw_args),
                                  (ascii ''draw_rectangle'', draw_args)]\<rparr>)"
    by (simp add: draw_call_executes [OF refl] example_start_simps
          process_line_function_call strip_broken_call broken_call_prefix
          function_call_def call_function_info_def example_env_simps loads_broken_call
          draw_object_name draw_object_args draw_rectangle_registered execute_tool_def
          recording_server_def)
  from a b show ?thesis by simp
qed

text \<open>
  Claim C4. Started with \<open>iteration\<close> at most \<open>max_iterations\<close> (the program starts at 0),
  the values of \<open>iteration\<close> at the successive tests of the loop condition are
  consecutive, so each completed round adds exactly one and the counter never decreases;
  none exceeds \<open>max_iterations\<close>;
  the value \<open>main\<close> ends with is the last of them; and the banner
  \<open>Maximum iterations reached\<close> is printed exactly when that value is
  \<open>max_iterations\<close>, which is exactly when the loop was left by its condition and not by
  a final answer or an exception.
\<close>

theorem round_counter:
  assumes "iteration s0 \<le> max_iterations"
  shows "map iteration (loop_heads e s0) =
           [iteration s0 ..< iteration s0 + length (loop_heads e s0)] \<and>
         sorted (map iteration (loop_heads e s0)) \<and>
         list_all (\<lambda>s. iteration s \<le> max_iterations) (loop_heads e s0) \<and>
         iteration (snd (main e s0)) = iteration (last (loop_heads e s0)) \<and>
         iteration (snd (main e s0)) \<le> max_iterations \<and>
         maximum_iterations_reached (fst (main e s0)) =
           (iteration (snd (main e s0)) = max_iterations) \<and>
         maximum_iterations_reached (fst (main e s0)) =
           (fst (while_loop e s0) = Loop_exhausted)"
proof -
  obtain ex s where w: "while_loop e s0 = (ex, s)" by (cases "while_loop e s0")
  from while_loop_exit [OF assms, of e] w
  have ex: "(ex = Loop_exhausted) = (iteration s = max_iterations)"
    and le: "iteration s \<le> max_iterations" by simp_all
  from loop_heads_last [of e s0] w
  have lst: "iteration s = iteration (last (loop_heads e s0))" by simp
  have m: "snd (main e s0) = s"
    using w by (cases ex) (simp_all add: main_def)
  have b: "maximum_iterations_reached (fst (main e s0)) = (iteration s = max_iterations)"
    using w ex le by (cases ex) (auto simp: main_def)
  have c: "map iteration (loop_heads e s0) =
             [iteration s0 ..< iteration s0 + length (loop_heads e s0)]"
    by (rule loop_heads_consecutive)
  have srt: "sorted (map iteration (loop_heads e s0))"
    by (subst c) (rule sorted_upt)
  have bnd: "\<forall>s \<in> set (loop_heads e s0). iteration s \<le> max_iterations"
  proof
    fix s' assume "s' \<in> set (loop_heads e s0)"
    then have "iteration s' \<in> set (map iteration (loop_heads e s0))" by simp
    then have "iteration s' < iteration s0 + length (loop_heads e s0)"
      by (subst (asm) c) simp
    with loop_heads_bounded [OF assms, of e] show "iteration s' \<le> max_iterations" by simp
  qed
  from bnd have all: "list_all (\<lambda>s. iteration s \<le> max_iterations) (loop_heads e s0)"
    by (simp add: list_all_iff)
  show ?thesis
    using c srt all m b lst ex le w by simp
qed

text \<open>
  Witness for C4: the run from the initial state in which the planner answers once with
  narrative text and then times out.
\<close>

theorem round_counter_witness:
  "iteration example_start \<le> max_iterations \<and>
   map iteration (loop_heads (example_env [Response (ascii ''REASONING: planning'')]) example_start) =
     [iteration example_start ..<
      iteration example_start +
      length (loop_heads (example_env [Response (ascii ''REASONING: planning'')]) example_start)] \<and>
   sorted (map iteration
     (loop_heads (example_env [Response (ascii ''REASONING: planning'')]) example_start)) \<and>
   list_all (\<lambda>s. iteration s \<le> max_iterations)
     (loop_heads (example_env [Response (ascii ''REASONING: planning'')]) example_start) \<and>
   iteration (snd (main (example_env [Response (ascii ''REASONING: planning'')]) example_start)) =
     iteration (last (loop_heads (example_env [Response (ascii ''REASONING: planning'')])
                        example_start)) \<and>
   iteration (snd (main (example_env [Response (ascii ''REASONING: planning'')]) example_start))
     \<le> max_iterations \<and>
   maximum_iterations_reached
     (fst (main (example_env [Response (ascii ''REASONING: planning'')]) example_start)) =
     (iteration (snd (main (example_env [Response (ascii ''REASONING: planning'')]) example_start)) =
      max_iterations) \<and>
   maximum_iterations_reached
     (fst (main (example_env [Response (ascii ''REASONING: planning'')]) example_start)) =
     (fst (while_loop (example_env [Response (ascii ''REASONING: planning'')]) example_start) =
      Loop_exhausted)"
proof -
  have h: "iteration example_start \<le> max_iterations"
    by (simp add: example_start_simps)
  show ?thesis by (rule conjI [OF h round_counter [OF h]])
qed

text \<open>
  Claim C5. The first response is the \<open>draw_rectangle\<close> call followed by
  \<open>FINAL_ANSWER: done\<close>; the decoder reads the payload as an object with that name and
  some arguments, and the tool is registered. Then \<open>main\<close> returns on the line
  \<open>FINAL_ANSWER: done\<close>, which is what it prints; the state is that after the one tool
  call, so exactly one record has been appended to the empty history; \<open>iteration\<close> is
  still 0 and the loop condition was tested once, so there is no second round.
\<close>

theorem scenario_draw_then_done:
  assumes "loads e draw_payload = Decoded obj"
    and "getitem obj (ascii ''name'') = Inr (JString (ascii ''draw_rectangle''))"
    and "getitem obj (ascii ''args'') = Inr params"
    and "ascii ''draw_rectangle'' \<in> set (tool_names e)"
    and "generate_content e 0 q = Response (draw_call @ [10] @ final_line)"
  shows "main e (initial_state q srv) =
           (\<lparr>final_answer = Some final_line, iteration_error = None,
             maximum_iterations_reached = False\<rparr>,
            execute_tool e ((initial_state q srv)\<lparr>function_info_json := Some obj\<rparr>)
              (ascii ''draw_rectangle'') params) \<and>
         length (iteration_response (snd (main e (initial_state q srv)))) = 1 \<and>
         iteration (snd (main e (initial_state q srv))) = 0 \<and>
         loop_heads e (initial_state q srv) = [initial_state q srv]"
proof -
  let ?s0 = "initial_state q srv :: ('a, 'b) agent_state"
  let ?s1 = "?s0\<lparr>function_info_json := Some obj\<rparr>"
  let ?s2 = "execute_tool e ?s1 (ascii ''draw_rectangle'') params"
  have i0: "iteration ?s0 = 0" and h0: "iteration_response ?s0 = []" and q0: "query ?s0 = q"
    by (simp_all add: initial_state_def)
  have lt: "iteration ?s0 < max_iterations"
    using i0 max_iterations_pos by simp
  have g: "generate_content e (iteration ?s0) (query ?s0) = Response (draw_call @ [10] @ final_line)"
    using assms(5) i0 q0 by simp
  have p1: "process_line e ?s0 draw_call = Next ?s2"
    using assms(1-4)
    by (simp add: process_line_function_call strip_draw_call draw_call_prefix function_call_def
        call_function_info_def           draw_call_payload)
  have p2: "process_line e ?s2 final_line = Return final_line ?s2"
    by (simp add: process_line_final_answer strip_final_line final_line_prefix)
  have f: "for_lines e [draw_call, final_line] ?s0 = Return final_line ?s2"
    using p1 p2 by simp
  from iteration_body_response [OF g split_draw_then_final f]
  have b: "iteration_body e ?s0 = Return final_line ?s2" by simp
  have m: "main e ?s0 =
           (\<lparr>final_answer = Some final_line, iteration_error = None,
             maximum_iterations_reached = False\<rparr>, ?s2)"
    by (rule main_return [OF while_loop_return [OF lt b]])
  have n: "length (iteration_response ?s2) = 1"
    using h0 by (simp add: execute_tool_one_record)
  have it: "iteration ?s2 = 0"
    using i0 by (simp add: execute_tool_iteration)
  show ?thesis
    using m n it loop_heads_stop [OF lt b] by simp
qed

text \<open>
  Witness for C5, with the recording server: the one record and the one call.
\<close>

theorem scenario_draw_then_done_witness:
  "(loads (example_env [Response (draw_call @ [10] @ final_line)]) draw_payload = Decoded draw_object \<and>
    getitem draw_object (ascii ''name'') = Inr (JString (ascii ''draw_rectangle'')) \<and>
    getitem draw_object (ascii ''args'') = Inr draw_args \<and>
    ascii ''draw_rectangle'' \<in> set (tool_names (example_env [Response (draw_call @ [10] @ final_line)])) \<and>
    generate_content (example_env [Response (draw_call @ [10] @ final_line)]) 0
      (initial_query (ascii ''AB'') (ascii ''a@b.c'')) = Response (draw_call @ [10] @ final_line)) \<and>
   main (example_env [Response (draw_call @ [10] @ final_line)]) example_start =
     (\<lparr>final_answer = Some final_line, iteration_error = None,
       maximum_iterations_reached = False\<rparr>,
      example_start\<lparr>iteration_response :=
                       [returned_record 0 (ascii ''draw_rectangle'') (ascii ''ok'')],
                    function_info_json := Some draw_object,
                    session := [(ascii ''draw_rectangle'', draw_args)]\<rparr>) \<and>
   loop_heads (example_env [Response (draw_call @ [10] @ final_line)]) example_start =
     [example_start]"
proof -
  let ?e = "example_env [Response (draw_call @ [10] @ final_line)]"
  have h1: "loads ?e draw_payload = Decoded draw_object"
    using loads_draw_call by (simp add: example_env_simps draw_call_payload)
  have h4: "ascii ''draw_rectangle'' \<in> set (tool_names ?e)"
    by (simp add: example_env_simps draw_rectangle_registered)
  have h5: "generate_content ?e 0 (initial_query (ascii ''AB'') (ascii ''a@b.c'')) =
            Response (draw_call @ [10] @ final_line)"
    by (simp add: example_env_simps scripted_first)
  have x: "execute_tool ?e (example_start\<lparr>function_info_json := Some draw_object\<rparr>)
             (ascii ''draw_rectangle'') draw_args =
           example_start\<lparr>iteration_response :=
                       [returned_record 0 (ascii ''draw_rectangle'') (ascii ''ok'')],
                    function_info_json := Some draw_object,
                    session := [(ascii ''draw_rectangle'', draw_args)]\<rparr>"
    by (simp add: execute_tool_def example_env_simps recording_server_def example_start_simps)
  from scenario_draw_then_done [OF h1 draw_object_name draw_object_args h4 h5, of "[]"]
    h1 h4 h5 draw_object_name draw_object_args x
  show ?thesis by (simp add: example_start_def)
qed

text \<open>
  Claim C6, as amended. A \<open>FUNCTION_CALL:\<close> line whose payload decodes to an object with
  \<open>name\<close> and \<open>args\<close>, the name not being registered, is skipped: nothing is appended
  to the history, the server is not called, no exception is raised, and the loop goes on
  with the remaining lines. Only \<open>function_info_json\<close> keeps the decoded value.
\<close>

theorem unregistered_tool_skipped:
  assumes "startswith (strip raw) (ascii ''FUNCTION_CALL:'')"
    and "loads e (after_first_colon (strip raw)) = Decoded obj"
    and "getitem obj (ascii ''name'') = Inr func_name"
    and "getitem obj (ascii ''args'') = Inr params"
    and "registered func_name (tool_names e) = None"
  shows "process_line e s raw = Next (s\<lparr>function_info_json := Some obj\<rparr>) \<and>
         for_lines e (raw # rest) s = for_lines e rest (s\<lparr>function_info_json := Some obj\<rparr>)"
  using assms by (simp add: process_line_function_call function_call_def call_function_info_def)

text \<open>
  Witness for C6: the call of \<open>erase_canvas\<close>, which the server does not register.
\<close>

theorem unregistered_tool_skipped_witness:
  "(startswith (strip erase_call) (ascii ''FUNCTION_CALL:'') \<and>
    loads (example_env []) (after_first_colon (strip erase_call)) = Decoded erase_object \<and>
    getitem erase_object (ascii ''name'') = Inr (JString (ascii ''erase_canvas'')) \<and>
    getitem erase_object (ascii ''args'') = Inr (JObject []) \<and>
    registered (JString (ascii ''erase_canvas'')) (tool_names (example_env [])) = None) \<and>
   process_line (example_env []) example_start erase_call =
     Next (example_start\<lparr>function_info_json := Some erase_object\<rparr>) \<and>
   for_lines (example_env []) (erase_call # [final_line]) example_start =
     for_lines (example_env []) [final_line]
       (example_start\<lparr>function_info_json := Some erase_object\<rparr>)"
proof -
  have h1: "startswith (strip erase_call) (ascii ''FUNCTION_CALL:'')"
    by (simp add: strip_erase_call erase_call_prefix)
  have h2: "loads (example_env []) (after_first_colon (strip erase_call)) = Decoded erase_object"
    by (simp add: strip_erase_call example_env_simps loads_erase_call)
  have h5: "registered (JString (ascii ''erase_canvas'')) (tool_names (example_env [])) = None"
    by (simp add: example_env_simps erase_canvas_not_listed)
  from unregistered_tool_skipped [OF h1 h2 erase_object_name erase_object_args h5,
      of example_start "[final_line]"] h1 h2 h5 erase_object_name erase_object_args
  show ?thesis by simp
qed

text \<open>
  Counterexample to claim C6 as stated: after the call of the unregistered
  \<open>erase_canvas\<close> the history is still empty; no record of any class was appended.
\<close>

theorem unregistered_tool_counterexample:
  "for_lines (example_env []) [erase_call] example_start =
     Next (example_start\<lparr>function_info_json := Some erase_object\<rparr>) \<and>
   iteration_response (example_start\<lparr>function_info_json := Some erase_object\<rparr>) = []"
  by (simp add: process_line_function_call strip_erase_call erase_call_prefix
        function_call_def call_function_info_def example_env_simps loads_erase_call erase_object_name
        erase_object_args erase_canvas_not_listed example_start_simps)

text \<open>
  Claim C8, as amended. When the request of the first round times out, the loop is left
  at once by \<open>break\<close> with the exception printed, nothing has been appended to the
  history, the banner of the maximum is not printed, and the exit status of the process
  is 0.
\<close>

theorem timeout_on_first_round:
  assumes "generate_content e 0 q = Timed_out"
  shows "main e (initial_state q srv) =
           (\<lparr>final_answer = None, iteration_error = Some TimeoutError,
             maximum_iterations_reached = False\<rparr>, initial_state q srv) \<and>
         iteration_response (snd (main e (initial_state q srv))) = [] \<and>
         exit_status Connected e (initial_state q srv) = 0"
proof -
  have i0: "iteration (initial_state q srv :: ('a, 'b) agent_state) = 0"
    by (simp add: initial_state_def)
  have b: "iteration_body e (initial_state q srv) = Raise TimeoutError (initial_state q srv)"
    using assms by (simp add: iteration_body_def initial_state_def)
  have w: "while_loop e (initial_state q srv) = (Loop_break TimeoutError, initial_state q srv)"
    using b i0 max_iterations_pos by (simp add: while_loop.simps [of e "initial_state q srv"])
  have m: "main e (initial_state q srv) =
           (\<lparr>final_answer = None, iteration_error = Some TimeoutError,
             maximum_iterations_reached = False\<rparr>, initial_state q srv)"
    using w i0 max_iterations_pos by (simp add: main_def)
  have "iteration_response (initial_state q srv :: ('a, 'b) agent_state) = []"
    by (simp add: initial_state_def)
  with m show ?thesis by (simp add: exit_status_def)
qed

text \<open>
  Witness for C8: the planner that times out at once.
\<close>

theorem timeout_on_first_round_witness:
  "generate_content (example_env []) 0 (initial_query (ascii ''AB'') (ascii ''a@b.c'')) = Timed_out \<and>
   main (example_env []) (initial_state (initial_query (ascii ''AB'') (ascii ''a@b.c'')) []) =
     (\<lparr>final_answer = None, iteration_error = Some TimeoutError,
       maximum_iterations_reached = False\<rparr>,
      initial_state (initial_query (ascii ''AB'') (ascii ''a@b.c'')) []) \<and>
   iteration_response
     (snd (main (example_env [])
            (initial_state (initial_query (ascii ''AB'') (ascii ''a@b.c'')) []))) = [] \<and>
   exit_status Connected (example_env [])
     (initial_state (initial_query (ascii ''AB'') (ascii ''a@b.c'')) []) = 0"
proof -
  have h: "generate_content (example_env []) 0 (initial_query (ascii ''AB'') (ascii ''a@b.c'')) =
           Timed_out"
    by (simp add: example_env_simps scripted_none)
  from timeout_on_first_round [OF h, of "[]"] h show ?thesis
    by (simp add: initial_state_def)
qed

text \<open>
  Counterexample to claim C8 as stated: with a time-out in the first round the exit
  status is 0, not a non-zero one.
\<close>

theorem timeout_exit_status_counterexample:
  "generate_content (example_env []) 0 (query example_start) = Timed_out \<and>
   exit_status Connected (example_env []) example_start = 0"
  by (simp add: example_env_simps scripted_none exit_status_def split: prod.splits)

section \<open>Properties of the arithmetic transform\<close>

lemma those_map:
  "those (map f xs) =
     (if list_all (\<lambda>x. f x \<noteq> None) xs then Some (map (\<lambda>x. the (f x)) xs) else None)"
  by (induction xs) (auto split: option.splits)

lemma zip_map_same: "zip xs (map g xs) = map (\<lambda>x. (x, g x)) xs"
  by (induction xs) simp_all

text \<open>
  The real number e^65 + e^66, bounded through the Maclaurin expansion of the
  exponential at 1.
\<close>

lemma e_upper: "exp (1::real) < 27183 / 10000"
proof -
  define S :: real where "S = (\<Sum>m<10. 1 / fact m)"
  obtain t where t: "\<bar>t\<bar> \<le> \<bar>1::real\<bar>"
    and e: "exp (1::real) = (\<Sum>m<10. (1 ^ m) / fact m) + (exp t / fact 10) * 1 ^ 10"
    using Maclaurin_exp_le [of 1 10] by blast
  from e have e': "exp (1::real) = S + exp t / fact 10" by (simp add: S_def)
  have "exp t \<le> exp 1" using t by simp
  also have "\<dots> \<le> 3" by (rule exp_le)
  finally have r: "exp t / fact 10 \<le> 3 / fact 10" by (simp add: divide_right_mono)
  have s: "S + 3 / fact 10 < 27183 / 10000"
    by (simp add: S_def lessThan_nat_numeral lessThan_Suc fact_numeral)
  from e' r s show ?thesis by linarith
qed

lemma exp_65_66_upper: "exp (65::real) + exp 66 < 63105 * 10 ^ 24"
proof -
  have p: "exp (65::real) = exp 1 ^ 65"
    using exp_of_nat_mult [of 65 "1::real"] by simp
  have q: "exp (66::real) = exp 65 * exp 1"
    using exp_add [of "65::real" 1] by simp
  have n: "(27183::real) ^ 65 < 16957 * 10 ^ 24 * 10000 ^ 65" by simp
  have "exp (1::real) ^ 65 < (27183 / 10000) ^ 65"
    using e_upper by (intro power_strict_mono) simp_all
  also have "\<dots> = 27183 ^ 65 / 10000 ^ 65" by (rule power_divide)
  also have "\<dots> < 16957 * 10 ^ 24"
    using n by (subst pos_divide_less_eq) simp_all
  finally have a: "exp (65::real) < 16957 * 10 ^ 24" using p by simp
  have "exp (65::real) * exp 1 < (16957 * 10 ^ 24) * (27183 / 10000)"
    using a e_upper by (intro mult_strict_mono) simp_all
  with a q show ?thesis by simp
qed

text \<open>
  With a library whose calls are determined, the list comprehensions have one outcome.
\<close>

lemma exp_all_single:
  assumes e1: "\<And>n a b. a \<in> exp_results L n \<Longrightarrow> b \<in> exp_results L n \<Longrightarrow> a = b"
  shows "a \<in> exp_all L ns \<Longrightarrow> b \<in> exp_all L ns \<Longrightarrow> a = b"
proof (induction ns arbitrary: a b)
  case Nil
  then show ?case by simp
next
  case (Cons n ns)
  from Cons.prems(1) obtain ra where ra: "ra \<in> exp_results L n"
    and a: "a \<in> (case ra of None \<Rightarrow> {None} | Some v \<Rightarrow> map_option ((#) v) ` exp_all L ns)"
    by auto
  from Cons.prems(2) obtain rb where rb: "rb \<in> exp_results L n"
    and b: "b \<in> (case rb of None \<Rightarrow> {None} | Some v \<Rightarrow> map_option ((#) v) ` exp_all L ns)"
    by auto
  from e1 [OF ra rb] have eq: "ra = rb" .
  show ?case
  proof (cases ra)
    case None
    with a b eq show ?thesis by simp
  next
    case (Some v)
    with a obtain a' where a': "a' \<in> exp_all L ns" "a = map_option ((#) v) a'" by auto
    from Some eq b obtain b' where b': "b' \<in> exp_all L ns" "b = map_option ((#) v) b'" by auto
    from Cons.IH [OF a'(1) b'(1)] a'(2) b'(2) show ?thesis by simp
  qed
qed

lemma details_all_single:
  assumes e1: "\<And>n a b. a \<in> exp_results L n \<Longrightarrow> b \<in> exp_results L n \<Longrightarrow> a = b"
    and f2: "\<And>v a b. a \<in> format_2e_results L v \<Longrightarrow> b \<in> format_2e_results L v \<Longrightarrow> a = b"
  shows "a \<in> details_all L cs \<Longrightarrow> b \<in> details_all L cs \<Longrightarrow> a = b"
proof (induction cs arbitrary: a b)
  case Nil
  then show ?case by simp
next
  case (Cons c cs)
  from Cons.prems(1) obtain ra where ra: "ra \<in> exp_results L c"
    and a: "a \<in> (case ra of None \<Rightarrow> {None}
                  | Some v \<Rightarrow> (\<Union>t \<in> format_2e_results L v.
                       map_option ((#) (detail_entry c t)) ` details_all L cs))"
    by auto
  from Cons.prems(2) obtain rb where rb: "rb \<in> exp_results L c"
    and b: "b \<in> (case rb of None \<Rightarrow> {None}
                  | Some v \<Rightarrow> (\<Union>t \<in> format_2e_results L v.
                       map_option ((#) (detail_entry c t)) ` details_all L cs))"
    by auto
  from e1 [OF ra rb] have eq: "ra = rb" .
  show ?case
  proof (cases ra)
    case None
    with a b eq show ?thesis by simp
  next
    case (Some v)
    with a obtain ta a' where a': "ta \<in> format_2e_results L v" "a' \<in> details_all L cs"
      "a = map_option ((#) (detail_entry c ta)) a'" by auto
    from Some eq b obtain tb b' where b': "tb \<in> format_2e_results L v" "b' \<in> details_all L cs"
      "b = map_option ((#) (detail_entry c tb)) b'" by auto
    from f2 [OF a'(1) b'(1)] Cons.IH [OF a'(2) b'(2)] a'(3) b'(3) show ?thesis by simp
  qed
qed

text \<open>
  The library of given operations has as its only run the text that
  \<open>calculate_ascii_exp_sum\<close> computes; with a library that wavers two invocations on the
  same input can differ.
\<close>

lemma as_lib_simps:
  "exp_results (as_lib fl) n = {math_exp fl n}"
  "sum_results (as_lib fl) vs = {float_sum fl vs}"
  "format_6e_results (as_lib fl) v = {format_6e fl v}"
  "format_2e_results (as_lib fl) v = {format_2e fl v}"
  by (simp_all add: as_lib_def)

lemma exp_all_as_lib: "exp_all (as_lib fl) ns = {those (map (math_exp fl) ns)}"
  by (induction ns) (auto simp: as_lib_simps split: option.splits)

lemma details_all_as_lib:
  "details_all (as_lib fl) cs =
     {map_option (\<lambda>vs. map (detail fl) (zip cs vs)) (those (map (math_exp fl) cs))}"
proof (induction cs)
  case Nil
  show ?case by simp
next
  case (Cons c cs)
  show ?case
  proof (cases "math_exp fl c")
    case None
    then show ?thesis by (simp add: as_lib_simps)
  next
    case (Some v)
    then show ?thesis
      by (cases "those (map (math_exp fl) cs)")
         (simp_all add: as_lib_simps Cons.IH detail_def detail_entry_def)
  qed
qed

lemma runs_as_lib: "runs (as_lib fl) self s = {calculate_ascii_exp_sum fl self' s}"
proof (cases "s = []")
  case True
  then show ?thesis by (simp add: runs_def calculate_ascii_exp_sum_def)
next
  case False
  then show ?thesis
    by (cases "those (map (math_exp fl) s)")
       (simp_all add: runs_def exp_all_as_lib details_all_as_lib calculate_ascii_exp_sum_def
          range_error_def Let_def as_lib_simps)
qed

lemma wavering_runs_differ:
  "range_error \<in> runs wavering_lib (PaintTools_init True :: unit paint_tools) [65] \<and>
   ascii ''Sum of exponentials of ASCII values for '' @ [39] @ [65] @ [39] @
     ascii '': {sum(exp(65)):.6e}'' @ [10] @ ascii ''Details: A=65'' @ [8594] @
     ascii ''e^65={exp(65):.2e}''
     \<in> runs wavering_lib (PaintTools_init True :: unit paint_tools) [65] \<and>
   range_error \<noteq>
     ascii ''Sum of exponentials of ASCII values for '' @ [39] @ [65] @ [39] @
     ascii '': {sum(exp(65)):.6e}'' @ [10] @ ascii ''Details: A=65'' @ [8594] @
     ascii ''e^65={exp(65):.2e}''"
  by (simp add: runs_def wavering_lib_def as_lib_def symbolic_ops_def range_error_def
        detail_entry_def ascii_def str_nat.simps)

section \<open>The claims on the tools\<close>

text \<open>
  Claim C7. For the empty string \<open>calculate_ascii_exp_sum\<close> returns the text
  \<open>Input string is empty\<close>, whatever the floating-point operations and the object are;
  it is not a report of a sum.
\<close>

theorem empty_input_sentinel:
  "calculate_ascii_exp_sum fl self [] = ascii ''Input string is empty'' \<and>
   \<not> startswith (calculate_ascii_exp_sum fl self []) (ascii ''Sum of exponentials'')"
  by (simp add: calculate_ascii_exp_sum_def startswith_def ascii_def)

text \<open>
  Claim C3, as amended. For a non-empty input, when \<open>math.exp\<close> overflows for none of
  its code points the text returned reports the \<open>sum\<close> of the values of \<open>math.exp\<close> at
  the code points of all characters, in the format \<open>.6e\<close>, and after it one entry per
  character, in order, with the character, its code point and the value of \<open>math.exp\<close>
  at it in the format \<open>.2e\<close>; when \<open>math.exp\<close> overflows for some code point the text
  is that of the range error.
\<close>

theorem transform_report:
  assumes "input_string \<noteq> []"
  shows "calculate_ascii_exp_sum fl self input_string =
           (if list_all (\<lambda>c. math_exp fl c \<noteq> None) input_string
            then ascii ''Sum of exponentials of ASCII values for '' @ [39] @ input_string @ [39] @
                 ascii '': '' @
                 format_6e fl (float_sum fl (map (\<lambda>c. the (math_exp fl c)) input_string)) @
                 [10] @ ascii ''Details: '' @
                 join (ascii '', '')
                   (map (\<lambda>c. [c] @ ascii ''='' @ str_nat c @ [8594] @ ascii ''e^'' @ str_nat c @
                              ascii ''='' @ format_2e fl (the (math_exp fl c)))
                      input_string)
            else ascii ''Error calculating ASCII exponential sum: math range error'')"
  using assms
  by (simp add: calculate_ascii_exp_sum_def those_map zip_map_same detail_def Let_def o_def)

text \<open>
  Witness for C3: the input \<open>AB\<close>, read symbolically; the sum reported is that of
  \<open>math.exp(65)\<close> and \<open>math.exp(66)\<close>.
\<close>

theorem transform_report_witness:
  "calculate_ascii_exp_sum symbolic_ops (PaintTools_init True :: unit paint_tools) (ascii ''AB'') =
     ascii ''Sum of exponentials of ASCII values for '' @ [39] @ ascii ''AB'' @ [39] @
     ascii '': {sum(exp(65),exp(66)):.6e}'' @ [10] @
     ascii ''Details: A=65'' @ [8594] @ ascii ''e^65={exp(65):.2e}, B=66'' @ [8594] @
     ascii ''e^66={exp(66):.2e}''"
proof -
  have h: "ascii ''AB'' \<noteq> []" by (simp add: ascii_def)
  from transform_report [OF h, of symbolic_ops "PaintTools_init True"]
  show ?thesis
    by (simp add: symbolic_ops_def ascii_def str_nat.simps)
qed

text \<open>
  Counterexample to claim C3 as stated: the one-character input with code point 711 is
  not empty and the text returned reports no sum but the range error. As to the value
  given for \<open>AB\<close>: the real number e^65 + e^66 is below 6.3105e28, so it is not 6.311e28
  to four digits.
\<close>

theorem transform_overflow_counterexample:
  "[711] \<noteq> ([] :: pystr) \<and>
   calculate_ascii_exp_sum symbolic_ops (PaintTools_init True :: unit paint_tools) [711] =
     ascii ''Error calculating ASCII exponential sum: math range error'' \<and>
   exp (65::real) + exp 66 < 63105 * 10 ^ 24"
  using exp_65_66_upper by (simp add: calculate_ascii_exp_sum_def symbolic_ops_def)

text \<open>
  Claim C9. When each operation of the library gives the same result at each call on the
  same argument, any two invocations on the same input string return the same text,
  whatever the state of the object at either call; the text holds the sum and the
  breakdown. It holds for the empty input too.
\<close>

theorem transform_deterministic:
  assumes e1: "\<And>n a b. a \<in> exp_results L n \<Longrightarrow> b \<in> exp_results L n \<Longrightarrow> a = b"
    and s1: "\<And>vs a b. a \<in> sum_results L vs \<Longrightarrow> b \<in> sum_results L vs \<Longrightarrow> a = b"
    and f6: "\<And>v a b. a \<in> format_6e_results L v \<Longrightarrow> b \<in> format_6e_results L v \<Longrightarrow> a = b"
    and f2: "\<And>v a b. a \<in> format_2e_results L v \<Longrightarrow> b \<in> format_2e_results L v \<Longrightarrow> a = b"
    and r1: "r1 \<in> runs L self1 input_string"
    and r2: "r2 \<in> runs L self2 input_string"
  shows "r1 = r2"
proof (cases "input_string = []")
  case True
  with r1 r2 show ?thesis by (simp add: runs_def)
next
  case False
  let ?report = "\<lambda>t details.
     ascii ''Sum of exponentials of ASCII values for '' @ [39] @ input_string @ [39] @
     ascii '': '' @ t @ [10] @ ascii ''Details: '' @ join (ascii '', '') details"
  let ?tail = "\<lambda>exp_values.
     (\<Union>total_sum \<in> sum_results L exp_values.
        \<Union>dv \<in> details_all L input_string.
          case dv of
            None \<Rightarrow> {range_error}
          | Some details \<Rightarrow> (\<Union>t \<in> format_6e_results L total_sum. {?report t details}))"
  from r1 False obtain ea where ea: "ea \<in> exp_all L input_string"
    and a: "r1 \<in> (case ea of None \<Rightarrow> {range_error} | Some exp_values \<Rightarrow> ?tail exp_values)"
    by (auto simp: runs_def)
  from r2 False obtain eb where eb: "eb \<in> exp_all L input_string"
    and b: "r2 \<in> (case eb of None \<Rightarrow> {range_error} | Some exp_values \<Rightarrow> ?tail exp_values)"
    by (auto simp: runs_def)
  from exp_all_single [OF e1 ea eb] have eq: "ea = eb" by simp
  show ?thesis
  proof (cases ea)
    case None
    with a b eq show ?thesis by simp
  next
    case (Some vs)
    with a obtain ta da where ta: "ta \<in> sum_results L vs" and da: "da \<in> details_all L input_string"
      and a': "r1 \<in> (case da of None \<Rightarrow> {range_error}
                      | Some details \<Rightarrow> (\<Union>t \<in> format_6e_results L ta. {?report t details}))"
      by auto
    from Some eq b obtain tb db where tb: "tb \<in> sum_results L vs"
      and db: "db \<in> details_all L input_string"
      and b': "r2 \<in> (case db of None \<Rightarrow> {range_error}
                      | Some details \<Rightarrow> (\<Union>t \<in> format_6e_results L tb. {?report t details}))"
      by auto
    from s1 [OF ta tb] have teq: "ta = tb" .
    from details_all_single [OF e1 f2 da db] have deq: "da = db" by simp
    show ?thesis
    proof (cases da)
      case None
      with a' b' deq show ?thesis by simp
    next
      case (Some details)
      with a' obtain xa where xa: "xa \<in> format_6e_results L ta" "r1 = ?report xa details" by auto
      from Some deq teq b' obtain xb where xb: "xb \<in> format_6e_results L ta"
        "r2 = ?report xb details" by auto
      from f6 [OF xa(1) xb(1)] xa(2) xb(2) show ?thesis by simp
    qed
  qed
qed

text \<open>
  Witness for C9: with the symbolic operations, every invocation on \<open>AB\<close> returns the one
  text below, before and after Paint was opened and a rectangle drawn.
\<close>

theorem transform_deterministic_witness:
  "runs (as_lib symbolic_ops) (PaintTools_init True :: unit paint_tools) (ascii ''AB'') =
     {ascii ''Sum of exponentials of ASCII values for '' @ [39] @ ascii ''AB'' @ [39] @
      ascii '': {sum(exp(65),exp(66)):.6e}'' @ [10] @
      ascii ''Details: A=65'' @ [8594] @ ascii ''e^65={exp(65):.2e}, B=66'' @ [8594] @
      ascii ''e^66={exp(66):.2e}''} \<and>
   runs (as_lib symbolic_ops)
     ((PaintTools_init True :: unit paint_tools)
        \<lparr>paint_app := Some (), last_rect := Some (600, 354, 1000, 454)\<rparr>) (ascii ''AB'') =
     {ascii ''Sum of exponentials of ASCII values for '' @ [39] @ ascii ''AB'' @ [39] @
      ascii '': {sum(exp(65),exp(66)):.6e}'' @ [10] @
      ascii ''Details: A=65'' @ [8594] @ ascii ''e^65={exp(65):.2e}, B=66'' @ [8594] @
      ascii ''e^66={exp(66):.2e}''}"
proof -
  let ?L = "as_lib symbolic_ops"
  let ?s1 = "PaintTools_init True :: unit paint_tools"
  let ?s2 = "?s1\<lparr>paint_app := Some (), last_rect := Some (600, 354, 1000, 454)\<rparr>"
  let ?t = "ascii ''Sum of exponentials of ASCII values for '' @ [39] @ ascii ''AB'' @ [39] @
      ascii '': {sum(exp(65),exp(66)):.6e}'' @ [10] @
      ascii ''Details: A=65'' @ [8594] @ ascii ''e^65={exp(65):.2e}, B=66'' @ [8594] @
      ascii ''e^66={exp(66):.2e}''"
  have m1: "?t \<in> runs ?L ?s1 (ascii ''AB'')"
    by (simp add: runs_def as_lib_def symbolic_ops_def detail_entry_def ascii_def str_nat.simps)
  have m2: "?t \<in> runs ?L ?s2 (ascii ''AB'')"
    by (simp add: runs_def as_lib_def symbolic_ops_def detail_entry_def ascii_def str_nat.simps)
  have d: "\<And>(self :: unit paint_tools) r. r \<in> runs ?L self (ascii ''AB'') \<Longrightarrow> r = ?t"
  proof -
    fix self :: "unit paint_tools" and r
    assume a: "r \<in> runs ?L self (ascii ''AB'')"
    show "r = ?t"
      by (rule transform_deterministic [where L = ?L, OF _ _ _ _ a m1])
         (simp_all add: as_lib_simps)
  qed
  from m1 d [of _ ?s1] have "runs ?L ?s1 (ascii ''AB'') = {?t}" by blast
  moreover from m2 d [of _ ?s2] have "runs ?L ?s2 (ascii ''AB'') = {?t}" by blast
  ultimately show ?thesis by simp
qed

text \<open>
  Claim C10. In real mode with \<open>paint_app\<close> still \<open>None\<close>, each of
  \<open>draw_rectangle\<close>, \<open>add_text_in_paint\<close> and \<open>save_paint\<close> returns the text
  \<open>Paint is not open. Please call open_paint first.\<close> and leaves the object and the
  desktop as they were.
\<close>

theorem not_open_guard:
  "\<not> simulation_mode self \<and> paint_app self = None \<Longrightarrow>
   draw_rectangle g self w x1 y1 x2 y2 =
     (ascii ''Paint is not open. Please call open_paint first.'', self, w) \<and>
   add_text_in_paint g self w text =
     (ascii ''Paint is not open. Please call open_paint first.'', self, w) \<and>
   save_paint g self w filename =
     (ascii ''Paint is not open. Please call open_paint first.'', self, w)"
  by (simp add: draw_rectangle_def add_text_in_paint_def save_paint_def not_open_def)

text \<open>
  Witness for C10: the object as \<open>__init__\<close> leaves it when the Windows modules are
  there.
\<close>

theorem not_open_guard_witness:
  "(\<not> simulation_mode (PaintTools_init True :: unit paint_tools) \<and>
    paint_app (PaintTools_init True :: unit paint_tools) = None) \<and>
   draw_rectangle idle_gui (PaintTools_init True) (0::nat) 600 354 1000 454 =
     (ascii ''Paint is not open. Please call open_paint first.'', PaintTools_init True, 0) \<and>
   add_text_in_paint idle_gui (PaintTools_init True) (0::nat) (ascii ''6.310716e+28'') =
     (ascii ''Paint is not open. Please call open_paint first.'', PaintTools_init True, 0) \<and>
   save_paint idle_gui (PaintTools_init True) (0::nat) (ascii ''ascii_result_AB.png'') =
     (ascii ''Paint is not open. Please call open_paint first.'', PaintTools_init True, 0)"
proof -
  have h: "\<not> simulation_mode (PaintTools_init True :: unit paint_tools) \<and>
           paint_app (PaintTools_init True :: unit paint_tools) = None"
    by (simp add: PaintTools_init_def)
  show ?thesis using h not_open_guard [OF h] by simp
qed

end
